theory Spec2Isabelle
  imports Complex_Main "HOL-Library.Word"
begin

unbundle bit_operations_syntax

section \<open>Data model of \<open>wf/__init__.py\<close>\<close>

text \<open>
  The module defines the enumeration \<open>TrimmingMode\<close>, the task \<open>trim_aln_task0\<close> and the
  workflow \<open>clipkit\<close>. Everything else it touches belongs to Python or to the platform
  SDK: \<open>LatchFile\<close>, \<open>Path.resolve\<close>, \<open>subprocess.run\<close> and \<open>str\<close>.
\<close>

subsection \<open>The enumeration (lines 13 to 21)\<close>

datatype TrimmingMode =
    gappy
  | smart_gap
  | kpi
  | kpi_gappy
  | kpi_smart_gap
  | kpic
  | kpic_gappy
  | kpic_smart_gap

text \<open>The member's \<open>.value\<close>: the string on the right of each assignment in the class body.\<close>

fun TrimmingMode_value :: "TrimmingMode \<Rightarrow> string" where
  "TrimmingMode_value gappy = ''gappy''"
| "TrimmingMode_value smart_gap = ''smart-gap''"
| "TrimmingMode_value kpi = ''kpi''"
| "TrimmingMode_value kpi_gappy = ''kpi-gappy''"
| "TrimmingMode_value kpi_smart_gap = ''kpi-smart-gap''"
| "TrimmingMode_value kpic = ''kpic''"
| "TrimmingMode_value kpic_gappy = ''kpic-gappy''"
| "TrimmingMode_value kpic_smart_gap = ''kpic-smart-gap''"

text \<open>The members in definition order, as iterating over the class yields them.\<close>

definition TrimmingMode_members :: "TrimmingMode list" where
  "TrimmingMode_members =
     [gappy, smart_gap, kpi, kpi_gappy, kpi_smart_gap, kpic, kpic_gappy, kpic_smart_gap]"

subsection \<open>Values the task receives\<close>

text \<open>
  The platform's file handle, reduced to the two strings the module reads and writes:
  the \<open>local_path\<close> property and the remote destination given to the constructor.
\<close>

record LatchFile =
  local_path :: string
  remote_path :: string

text \<open>
  \<open>gap_threshold\<close> is declared \<open>float\<close>: a Python \<open>float\<close> is an IEEE 754 binary64, held
  here as its bit pattern (sign bit 63, exponent field bits 62 to 52, fraction bits 51
  to 0).
\<close>

type_synonym pyfloat = "64 word"

text \<open>
  Truth value of a float, as \<open>not gap_threshold\<close> tests it: a float is false exactly when
  it compares equal to \<open>0.0\<close>, which holds for the two zeros (all bits below the sign bit
  clear) and for no other pattern, the NaNs included.
\<close>

fun truthy :: "pyfloat \<Rightarrow> bool" where
  "truthy b = (b AND 0x7FFFFFFFFFFFFFFF \<noteq> 0)"

text \<open>
  The literal \<open>0.9\<close> of lines 27, 39 and 61: the binary64 nearest to nine tenths
  (sign 0, exponent field \<open>0x3FE\<close>, fraction \<open>0xCCCCCCCCCCCCD\<close>).
\<close>

definition float_0_9 :: pyfloat where
  "float_0_9 = 0x3FECCCCCCCCCCCCD"

text \<open>
  The exact value of a finite binary64 pattern, used only to justify \<open>float_0_9\<close>.
  Patterns with exponent field \<open>0x7FF\<close> (infinities and NaNs) have no value.
\<close>

definition float_value :: "pyfloat \<Rightarrow> rat option" where
  "float_value b =
     (let s = (if bit b 63 then - 1 else 1 :: rat);
          e = unat (drop_bit 52 b AND 0x7FF);
          f = unat (b AND 0xFFFFFFFFFFFFF)
      in if e = 0x7FF then None
         else if e = 0 then Some (s * of_nat f / 2 ^ 1074)
         else if e < 1075 then Some (s * of_nat (2 ^ 52 + f) / 2 ^ (1075 - e))
         else Some (s * of_nat (2 ^ 52 + f) * 2 ^ (e - 1075)))"

text \<open>Truth value of \<open>output_file_name\<close>: \<open>None\<close> and the empty string are false.\<close>

fun str_truthy :: "string option \<Rightarrow> bool" where
  "str_truthy None = False"
| "str_truthy (Some s) = (s \<noteq> [])"

subsection \<open>The Python runtime around the task\<close>

text \<open>
  \<open>subprocess.run(cmd)\<close> without \<open>check\<close> or capture returns a \<open>CompletedProcess\<close> holding
  the arguments and the exit status, whatever that status is; the child's output goes to
  the inherited streams. It raises only when no process could be started.
\<close>

record CompletedProcess =
  args :: "string list"
  returncode :: int

datatype error =
    OSError string
  | TypeError "string list"

text \<open>
  What the module calls but does not define, over a world \<open>'w\<close> (file system, working
  directory, inherited streams):
  \<^item> \<open>path_resolve w p\<close> is \<open>str(Path(p).resolve())\<close> in world \<open>w\<close>;
  \<^item> \<open>subprocess_run cmd w\<close> either fails to start the process or returns the completed
    process and the world it leaves behind;
  \<^item> \<open>float_repr b\<close> is \<open>str\<close> of the float with bit pattern \<open>b\<close>.
\<close>

record 'w runtime =
  path_resolve :: "'w \<Rightarrow> string \<Rightarrow> string"
  subprocess_run :: "string list \<Rightarrow> 'w \<Rightarrow> error + CompletedProcess \<times> 'w"
  float_repr :: "pyfloat \<Rightarrow> string"

text \<open>
  \<open>trimmed_aln_fasta\<close> holds a \<open>Path\<close> on one branch and a \<open>str\<close> on the other. Both
  \<open>str(x)\<close> and the f-string field \<open>{x}\<close> render a \<open>Path\<close> as its path string and a
  \<open>str\<close> as itself.
\<close>

datatype pathlike = PathObj string | StrObj string

fun str_pathlike :: "pathlike \<Rightarrow> string" where
  "str_pathlike (PathObj p) = p"
| "str_pathlike (StrObj s) = s"

fun format_pathlike :: "pathlike \<Rightarrow> string" where
  "format_pathlike (PathObj p) = p"
| "format_pathlike (StrObj s) = s"

section \<open>The task \<open>trim_aln_task0\<close> (lines 24 to 54)\<close>

text \<open>Lines 32 to 35: the output path.\<close>

definition trimmed_aln_fasta :: "'w runtime \<Rightarrow> 'w \<Rightarrow> string option \<Rightarrow> pathlike" where
  "trimmed_aln_fasta R w output_file_name =
     (case output_file_name of
        None \<Rightarrow> PathObj (path_resolve R w ''trimmed_aln.fna'')
      | Some s \<Rightarrow>
          if \<not> str_truthy (Some s)
          then PathObj (path_resolve R w ''trimmed_aln.fna'')
          else StrObj s)"

text \<open>Lines 38 and 39: the value of \<open>gap_threshold\<close> after the defaulting test.\<close>

definition gap_threshold_set :: "pyfloat \<Rightarrow> pyfloat" where
  "gap_threshold_set gap_threshold =
     (if \<not> truthy gap_threshold then float_0_9 else gap_threshold)"

text \<open>Lines 41 to 50: the argument list, from the values of the local variables.\<close>

definition clipkit_cmd ::
  "'w runtime \<Rightarrow> LatchFile \<Rightarrow> pathlike \<Rightarrow> pyfloat \<Rightarrow> TrimmingMode \<Rightarrow> string list" where
  "clipkit_cmd R aln_fasta trimmed gap trimming_mode =
     [''clipkit'',
      local_path aln_fasta,
      ''-o'',
      str_pathlike trimmed,
      ''-m'',
      TrimmingMode_value trimming_mode,
      ''-g'',
      float_repr R gap]"

text \<open>The value of \<open>_clipkit_cmd\<close> at line 50, for the task's four arguments.\<close>

abbreviation task_cmd ::
  "'w runtime \<Rightarrow> LatchFile \<Rightarrow> string option \<Rightarrow> pyfloat \<Rightarrow> TrimmingMode \<Rightarrow> 'w \<Rightarrow> string list"
  where
  "task_cmd R aln_fasta output_file_name gap_threshold trimming_mode w \<equiv>
     clipkit_cmd R aln_fasta (trimmed_aln_fasta R w output_file_name)
       (gap_threshold_set gap_threshold) trimming_mode"

text \<open>The value of \<open>str(trimmed_aln_fasta)\<close>, the output path as a string.\<close>

abbreviation output_path :: "'w runtime \<Rightarrow> 'w \<Rightarrow> string option \<Rightarrow> string" where
  "output_path R w output_file_name \<equiv> str_pathlike (trimmed_aln_fasta R w output_file_name)"

text \<open>
  The whole body. The completed process returned by \<open>subprocess.run\<close> is dropped; an
  exception from \<open>subprocess.run\<close> itself leaves the function.
\<close>

definition trim_aln_task0 ::
  "'w runtime \<Rightarrow> LatchFile \<Rightarrow> string option \<Rightarrow> pyfloat \<Rightarrow> TrimmingMode \<Rightarrow> 'w
     \<Rightarrow> error + LatchFile \<times> 'w" where
  "trim_aln_task0 R aln_fasta output_file_name gap_threshold trimming_mode w =
     (let trimmed = trimmed_aln_fasta R w output_file_name;
          gap = gap_threshold_set gap_threshold;
          cmd = clipkit_cmd R aln_fasta trimmed gap trimming_mode
      in case subprocess_run R cmd w of
           Inl e \<Rightarrow> Inl e
         | Inr (cp, w') \<Rightarrow>
             Inr (\<lparr>local_path = str_pathlike trimmed,
                   remote_path = ''latch:///'' @ format_pathlike trimmed\<rparr>, w'))"

section \<open>The workflow \<open>clipkit\<close> (lines 58 to 155)\<close>

definition clipkit ::
  "'w runtime \<Rightarrow> LatchFile \<Rightarrow> string option \<Rightarrow> pyfloat \<Rightarrow> TrimmingMode \<Rightarrow> 'w
     \<Rightarrow> error + LatchFile \<times> 'w" where
  "clipkit R aln_fasta output_file_name gap_threshold trimming_mode w =
     trim_aln_task0 R aln_fasta output_file_name gap_threshold trimming_mode w"

section \<open>Calls by keyword\<close>

text \<open>
  A call names the parameters it supplies; \<open>None\<close> in a field means the keyword is left
  out. Binding follows each signature: a parameter without a default that is left out
  raises \<open>TypeError\<close> naming the missing parameters, one with a default takes it.
\<close>

record kwargs =
  kw_aln_fasta :: "LatchFile option"
  kw_output_file_name :: "string option option"
  kw_gap_threshold :: "pyfloat option"
  kw_trimming_mode :: "TrimmingMode option"

text \<open>
  Lines 24 to 29: \<open>aln_fasta\<close> and \<open>output_file_name\<close> have no default,
  \<open>gap_threshold\<close> defaults to \<open>0.9\<close> and \<open>trimming_mode\<close> to \<open>TrimmingMode.smart_gap\<close>.
\<close>

definition trim_aln_task0_call :: "'w runtime \<Rightarrow> kwargs \<Rightarrow> 'w \<Rightarrow> error + LatchFile \<times> 'w" where
  "trim_aln_task0_call R kw w =
     (case (kw_aln_fasta kw, kw_output_file_name kw) of
        (None, None) \<Rightarrow> Inl (TypeError [''aln_fasta'', ''output_file_name''])
      | (None, Some n) \<Rightarrow> Inl (TypeError [''aln_fasta''])
      | (Some f, None) \<Rightarrow> Inl (TypeError [''output_file_name''])
      | (Some f, Some n) \<Rightarrow>
          trim_aln_task0 R f n
            (case kw_gap_threshold kw of None \<Rightarrow> float_0_9 | Some g \<Rightarrow> g)
            (case kw_trimming_mode kw of None \<Rightarrow> smart_gap | Some m \<Rightarrow> m)
            w)"

text \<open>
  Lines 58 to 63: only \<open>aln_fasta\<close> has no default; \<open>output_file_name\<close> defaults to
  \<open>None\<close>, \<open>gap_threshold\<close> to \<open>0.9\<close> and \<open>trimming_mode\<close> to \<open>TrimmingMode.smart_gap\<close>.
\<close>

definition clipkit_call :: "'w runtime \<Rightarrow> kwargs \<Rightarrow> 'w \<Rightarrow> error + LatchFile \<times> 'w" where
  "clipkit_call R kw w =
     (case kw_aln_fasta kw of
        None \<Rightarrow> Inl (TypeError [''aln_fasta''])
      | Some f \<Rightarrow>
          clipkit R f
            (case kw_output_file_name kw of None \<Rightarrow> None | Some n \<Rightarrow> n)
            (case kw_gap_threshold kw of None \<Rightarrow> float_0_9 | Some g \<Rightarrow> g)
            (case kw_trimming_mode kw of None \<Rightarrow> smart_gap | Some m \<Rightarrow> m)
            w)"

section \<open>A sample runtime\<close>

text \<open>
  A runtime to evaluate the definitions on: the world is the list of commands run so
  far, the working directory is \<open>/root\<close>, every process starts and exits with status 1,
  and \<open>float_repr\<close> knows the five floats used below and answers with the empty
  string for any other.
\<close>

definition sample_float_repr :: "pyfloat \<Rightarrow> string" where
  "sample_float_repr b =
     (if b = 0x3FECCCCCCCCCCCCD then ''0.9''
      else if b = 0x3FE0000000000000 then ''0.5''
      else if b = 0x3FF0000000000000 then ''1.0''
      else if b = 0x4004000000000000 then ''2.5''
      else if b = 0xBFF8000000000000 then ''-1.5''
      else [])"

definition sample_runtime :: "string list list runtime" where
  "sample_runtime =
     \<lparr>path_resolve = (\<lambda>w p. ''/root/'' @ p),
      subprocess_run = (\<lambda>cmd w. Inr (\<lparr>args = cmd, returncode = 1\<rparr>, w @ [cmd])),
      float_repr = sample_float_repr\<rparr>"

text \<open>The same runtime on a machine where the executable is not installed.\<close>

definition bare_runtime :: "string list list runtime" where
  "bare_runtime =
     sample_runtime\<lparr>subprocess_run := (\<lambda>cmd w. Inl (OSError ''clipkit''))\<rparr>"

definition sample_file :: LatchFile where
  "sample_file = \<lparr>local_path = ''/tmp/aln.fa'', remote_path = ''latch:///aln.fa''\<rparr>"

section \<open>Properties\<close>

subsection \<open>The literal \<open>0.9\<close>\<close>

lemma float_0_9_value: "float_value float_0_9 = Some (8106479329266893 / 2 ^ 53)"
  by (simp add: float_value_def float_0_9_def Let_def bit_iff_odd_drop_bit)

text \<open>
  Floats between one half and one are \<open>2 ^ 53\<close>-ths apart; \<open>float_0_9\<close> lies within
  half that distance of nine tenths, so it is the float the literal denotes.
\<close>

lemma float_0_9_nearest:
  "\<exists>v. float_value float_0_9 = Some v \<and> \<bar>v - 9 / 10\<bar> < 1 / 2 ^ 54"
proof -
  have "\<bar>8106479329266893 / 2 ^ 53 - 9 / 10\<bar> < (1 / 2 ^ 54 :: rat)"
    by simp
  then show ?thesis
    using float_0_9_value by blast
qed

lemma float_0_9_truthy: "truthy float_0_9"
  by (simp add: float_0_9_def)

subsection \<open>Shape of the task\<close>

text \<open>
  The task's result in terms of the one call it makes to the runtime's process launcher:
  a failure to start the process leaves the task as an exception, a completed process is
  replaced by the handle.
\<close>

lemma trim_aln_task0_launch_failure:
  assumes "subprocess_run R
             (task_cmd R aln_fasta output_file_name gap_threshold trimming_mode w) w = Inl e"
  shows "trim_aln_task0 R aln_fasta output_file_name gap_threshold trimming_mode w = Inl e"
  using assms by (simp add: trim_aln_task0_def Let_def)

lemma trim_aln_task0_completed:
  assumes "subprocess_run R
             (task_cmd R aln_fasta output_file_name gap_threshold trimming_mode w) w =
           Inr (cp, w')"
  shows "trim_aln_task0 R aln_fasta output_file_name gap_threshold trimming_mode w =
           Inr (\<lparr>local_path = output_path R w output_file_name,
                 remote_path =
                   ''latch:///'' @ format_pathlike (trimmed_aln_fasta R w output_file_name)\<rparr>,
                w')"
  using assms by (simp add: trim_aln_task0_def Let_def)

lemma format_is_str: "format_pathlike x = str_pathlike x"
  by (cases x) simp_all

lemma trim_aln_task0_Inl_iff:
  "trim_aln_task0 R aln_fasta output_file_name gap_threshold trimming_mode w = Inl e \<longleftrightarrow>
   subprocess_run R
     (task_cmd R aln_fasta output_file_name gap_threshold trimming_mode w) w = Inl e"
  by (simp add: trim_aln_task0_def Let_def split: sum.split prod.split)

subsection \<open>The command line\<close>

text \<open>
  C1. The argument list the task builds is the eight strings \<open>clipkit\<close>, the input's
  local path, \<open>-o\<close>, the output path as a string, \<open>-m\<close>, the mode's value, \<open>-g\<close>, the
  threshold as a string, in this order, and it is this list that the task hands to
  \<open>subprocess.run\<close>.
\<close>

theorem command_line_exact:
  "task_cmd R aln_fasta output_file_name gap_threshold trimming_mode w =
     [''clipkit'', local_path aln_fasta,
      ''-o'', output_path R w output_file_name,
      ''-m'', TrimmingMode_value trimming_mode,
      ''-g'', float_repr R (gap_threshold_set gap_threshold)]
   \<and> length (task_cmd R aln_fasta output_file_name gap_threshold trimming_mode w) = 8
   \<and> trim_aln_task0 R aln_fasta output_file_name gap_threshold trimming_mode w =
       (case subprocess_run R
               [''clipkit'', local_path aln_fasta,
                ''-o'', output_path R w output_file_name,
                ''-m'', TrimmingMode_value trimming_mode,
                ''-g'', float_repr R (gap_threshold_set gap_threshold)] w of
          Inl e \<Rightarrow> Inl e
        | Inr (cp, w') \<Rightarrow>
            Inr (\<lparr>local_path = output_path R w output_file_name,
                  remote_path = ''latch:///'' @ output_path R w output_file_name\<rparr>,
                 w'))"
  by (simp add: clipkit_cmd_def trim_aln_task0_def Let_def format_is_str split: sum.split)

text \<open>
  On the sample runtime, with every argument given: the world afterwards holds the one
  command that was run.
\<close>

lemma command_line_sample:
  "trim_aln_task0 sample_runtime sample_file (Some ''out.fa'')
       0x3FE0000000000000 kpic_gappy [] =
     Inr (\<lparr>local_path = ''out.fa'', remote_path = ''latch:///out.fa''\<rparr>,
          [[''clipkit'', ''/tmp/aln.fa'', ''-o'', ''out.fa'', ''-m'', ''kpic-gappy'',
            ''-g'', ''0.5'']])"
  by (simp add: trim_aln_task0_def Let_def trimmed_aln_fasta_def gap_threshold_set_def
      clipkit_cmd_def sample_runtime_def sample_file_def sample_float_repr_def)

subsection \<open>The trimming modes\<close>

lemma TrimmingMode_UNIV: "(UNIV :: TrimmingMode set) = set TrimmingMode_members"
proof -
  have "m \<in> set TrimmingMode_members" for m
    by (cases m) (simp_all add: TrimmingMode_members_def)
  then show ?thesis by auto
qed

text \<open>
  C2. \<open>TrimmingMode\<close> has exactly eight members, their values are the eight mode
  strings, and whatever the mode is, the argument after \<open>-m\<close> is that mode's value.
\<close>

theorem trimming_mode_flag:
  "(UNIV :: TrimmingMode set) = set TrimmingMode_members
   \<and> distinct TrimmingMode_members
   \<and> card (UNIV :: TrimmingMode set) = 8
   \<and> map TrimmingMode_value TrimmingMode_members =
       [''gappy'', ''smart-gap'', ''kpi'', ''kpi-gappy'', ''kpi-smart-gap'',
        ''kpic'', ''kpic-gappy'', ''kpic-smart-gap'']
   \<and> (\<forall>m. task_cmd R aln_fasta output_file_name gap_threshold m w ! 4 = ''-m''
          \<and> task_cmd R aln_fasta output_file_name gap_threshold m w ! 5 =
              TrimmingMode_value m)"
proof -
  have d: "distinct TrimmingMode_members"
    by (simp add: TrimmingMode_members_def)
  have "card (set TrimmingMode_members) = length TrimmingMode_members"
    using d by (rule distinct_card)
  then have c: "card (UNIV :: TrimmingMode set) = 8"
    by (simp add: TrimmingMode_UNIV) (simp add: TrimmingMode_members_def)
  have v: "map TrimmingMode_value TrimmingMode_members =
       [''gappy'', ''smart-gap'', ''kpi'', ''kpi-gappy'', ''kpi-smart-gap'',
        ''kpic'', ''kpic-gappy'', ''kpic-smart-gap'']"
    by (simp add: TrimmingMode_members_def)
  show ?thesis
    using d c v by (simp add: TrimmingMode_UNIV clipkit_cmd_def)
qed

subsection \<open>The gap threshold\<close>

text \<open>
  C3. When the threshold is false as a truth value, the argument after \<open>-g\<close> is \<open>str\<close> of
  the float \<open>0.9\<close>; otherwise it is \<open>str\<close> of the threshold given. The float zero, which
  is what \<open>0\<close> and \<open>0.0\<close> are for a float parameter, is false with either sign, so an
  explicit zero is replaced. A call that leaves the threshold out binds \<open>0.9\<close>, which is
  true and goes through as it is.
\<close>

theorem threshold_default:
  "task_cmd R aln_fasta output_file_name gap_threshold trimming_mode w ! 6 = ''-g''
   \<and> (\<not> truthy gap_threshold \<longrightarrow>
        gap_threshold_set gap_threshold = float_0_9
        \<and> task_cmd R aln_fasta output_file_name gap_threshold trimming_mode w ! 7 =
            float_repr R float_0_9)
   \<and> (truthy gap_threshold \<longrightarrow>
        gap_threshold_set gap_threshold = gap_threshold
        \<and> task_cmd R aln_fasta output_file_name gap_threshold trimming_mode w ! 7 =
            float_repr R gap_threshold)
   \<and> \<not> truthy 0
   \<and> \<not> truthy 0x8000000000000000
   \<and> float_value 0 = Some 0
   \<and> float_value 0x8000000000000000 = Some 0
   \<and> trim_aln_task0_call R
        \<lparr>kw_aln_fasta = Some aln_fasta, kw_output_file_name = Some output_file_name,
         kw_gap_threshold = None, kw_trimming_mode = Some trimming_mode\<rparr> w =
       trim_aln_task0 R aln_fasta output_file_name float_0_9 trimming_mode w
   \<and> task_cmd R aln_fasta output_file_name float_0_9 trimming_mode w ! 7 =
       float_repr R float_0_9"
proof -
  have z: "float_value 0 = Some 0" "float_value 0x8000000000000000 = Some 0"
    by (simp_all add: float_value_def Let_def bit_iff_odd_drop_bit)
  show ?thesis
    using z
    by (simp add: clipkit_cmd_def gap_threshold_set_def trim_aln_task0_call_def float_0_9_def)
qed

theorem threshold_default_witness:
  "\<not> truthy 0
   \<and> task_cmd sample_runtime sample_file None 0 smart_gap [] ! 7 = ''0.9''
   \<and> truthy 0x3FE0000000000000
   \<and> task_cmd sample_runtime sample_file None 0x3FE0000000000000 smart_gap [] ! 7 = ''0.5''"
proof -
  have f: "\<not> truthy 0" by simp
  have t: "truthy 0x3FE0000000000000" by simp
  have r: "float_repr sample_runtime float_0_9 = ''0.9''"
    by (simp add: sample_runtime_def sample_float_repr_def float_0_9_def)
  have s: "float_repr sample_runtime 0x3FE0000000000000 = ''0.5''"
    by (simp add: sample_runtime_def sample_float_repr_def)
  note d0 = threshold_default [where R = sample_runtime and aln_fasta = sample_file
      and output_file_name = None and gap_threshold = 0
      and trimming_mode = smart_gap and w = "[]"]
  note d1 = threshold_default [where R = sample_runtime and aln_fasta = sample_file
      and output_file_name = None and gap_threshold = "0x3FE0000000000000"
      and trimming_mode = smart_gap and w = "[]"]
  have 0: "task_cmd sample_runtime sample_file None 0 smart_gap [] ! 7 =
             float_repr sample_runtime float_0_9"
    using f d0 by blast
  have 1: "task_cmd sample_runtime sample_file None 0x3FE0000000000000 smart_gap [] ! 7 =
             float_repr sample_runtime 0x3FE0000000000000"
    using t d1 by blast
  show ?thesis
    using f t by (simp only: 0 1 r s simp_thms)
qed

text \<open>
  C10. A threshold that is true as a truth value reaches the command line as \<open>str\<close> of
  itself, whatever its sign or size, and the task raises only what \<open>subprocess.run\<close>
  raises: no threshold makes the task itself refuse its input.
\<close>

theorem threshold_not_validated:
  assumes "truthy gap_threshold"
  shows "gap_threshold_set gap_threshold = gap_threshold
   \<and> task_cmd R aln_fasta output_file_name gap_threshold trimming_mode w ! 7 =
       float_repr R gap_threshold
   \<and> (\<forall>e. trim_aln_task0 R aln_fasta output_file_name gap_threshold trimming_mode w = Inl e
          \<longleftrightarrow> subprocess_run R
                (task_cmd R aln_fasta output_file_name gap_threshold trimming_mode w) w =
              Inl e)"
  using assms
  by (simp add: trim_aln_task0_Inl_iff) (simp add: clipkit_cmd_def gap_threshold_set_def)

text \<open>On the sample runtime: \<open>-1.5\<close> is below the range of a proportion, \<open>2.5\<close> above it.\<close>

theorem threshold_not_validated_witness:
  "truthy 0xBFF8000000000000
   \<and> float_value 0xBFF8000000000000 = Some (- 3 / 2)
   \<and> task_cmd sample_runtime sample_file None 0xBFF8000000000000 gappy [] ! 7 = ''-1.5''
   \<and> trim_aln_task0 sample_runtime sample_file None 0xBFF8000000000000 gappy [] =
       Inr (\<lparr>local_path = ''/root/trimmed_aln.fna'',
             remote_path = ''latch:////root/trimmed_aln.fna''\<rparr>,
            [[''clipkit'', ''/tmp/aln.fa'', ''-o'', ''/root/trimmed_aln.fna'', ''-m'',
              ''gappy'', ''-g'', ''-1.5'']])
   \<and> truthy 0x4004000000000000
   \<and> float_value 0x4004000000000000 = Some (5 / 2)
   \<and> task_cmd sample_runtime sample_file None 0x4004000000000000 gappy [] ! 7 = ''2.5''"
proof -
  have a: "truthy 0xBFF8000000000000" by simp
  have b: "truthy 0x4004000000000000" by simp
  have v: "float_value 0xBFF8000000000000 = Some (- 3 / 2)"
    "float_value 0x4004000000000000 = Some (5 / 2)"
    by (simp_all add: float_value_def Let_def bit_iff_odd_drop_bit)
  have s: "float_repr sample_runtime 0xBFF8000000000000 = ''-1.5''"
    "float_repr sample_runtime 0x4004000000000000 = ''2.5''"
    by (simp_all add: sample_runtime_def sample_float_repr_def)
  have 1: "task_cmd sample_runtime sample_file None 0xBFF8000000000000 gappy [] ! 7 =
             float_repr sample_runtime 0xBFF8000000000000"
    by (rule threshold_not_validated [OF a, THEN conjunct2, THEN conjunct1])
  have 2: "task_cmd sample_runtime sample_file None 0x4004000000000000 gappy [] ! 7 =
             float_repr sample_runtime 0x4004000000000000"
    by (rule threshold_not_validated [OF b, THEN conjunct2, THEN conjunct1])
  have r: "trim_aln_task0 sample_runtime sample_file None 0xBFF8000000000000 gappy [] =
       Inr (\<lparr>local_path = ''/root/trimmed_aln.fna'',
             remote_path = ''latch:////root/trimmed_aln.fna''\<rparr>,
            [[''clipkit'', ''/tmp/aln.fa'', ''-o'', ''/root/trimmed_aln.fna'', ''-m'',
              ''gappy'', ''-g'', ''-1.5'']])"
    by (simp add: trim_aln_task0_def Let_def trimmed_aln_fasta_def gap_threshold_set_def
        clipkit_cmd_def sample_runtime_def sample_file_def sample_float_repr_def)
  show ?thesis
    using a b by (simp only: 1 2 s v r simp_thms)
qed

subsection \<open>The output path\<close>

text \<open>
  C4. With no output name (\<open>None\<close>) the output path is \<open>trimmed_aln.fna\<close> resolved by
  \<open>Path.resolve\<close>, that is, against the working directory. A name that is not empty is
  the output path character for character: it is the argument after \<open>-o\<close> and the local
  path of the handle.
\<close>

theorem output_path_resolution:
  "trimmed_aln_fasta R w None = PathObj (path_resolve R w ''trimmed_aln.fna'')
   \<and> output_path R w None = path_resolve R w ''trimmed_aln.fna''
   \<and> task_cmd R aln_fasta None gap_threshold trimming_mode w ! 2 = ''-o''
   \<and> task_cmd R aln_fasta None gap_threshold trimming_mode w ! 3 =
       path_resolve R w ''trimmed_aln.fna''
   \<and> (name \<noteq> [] \<longrightarrow>
        trimmed_aln_fasta R w (Some name) = StrObj name
        \<and> output_path R w (Some name) = name
        \<and> task_cmd R aln_fasta (Some name) gap_threshold trimming_mode w ! 2 = ''-o''
        \<and> task_cmd R aln_fasta (Some name) gap_threshold trimming_mode w ! 3 = name)"
  by (simp add: trimmed_aln_fasta_def clipkit_cmd_def)

theorem output_path_resolution_witness:
  "''../my aln;x.fa'' \<noteq> []
   \<and> task_cmd sample_runtime sample_file (Some ''../my aln;x.fa'') 0x3FF0000000000000 kpi [] ! 3 =
       ''../my aln;x.fa''
   \<and> task_cmd sample_runtime sample_file None 0x3FF0000000000000 kpi [] ! 3 = ''/root/trimmed_aln.fna''"
proof -
  have n: "''../my aln;x.fa'' \<noteq> []" by simp
  have r: "path_resolve sample_runtime [] ''trimmed_aln.fna'' = ''/root/trimmed_aln.fna''"
    by (simp add: sample_runtime_def)
  note t = output_path_resolution [where R = sample_runtime and w = "[]"
      and aln_fasta = sample_file and gap_threshold = "0x3FF0000000000000" and trimming_mode = kpi
      and name = "''../my aln;x.fa''"]
  have a: "task_cmd sample_runtime sample_file (Some ''../my aln;x.fa'') 0x3FF0000000000000 kpi [] ! 3 =
             ''../my aln;x.fa''"
    using n t by blast
  have b: "task_cmd sample_runtime sample_file None 0x3FF0000000000000 kpi [] ! 3 =
             path_resolve sample_runtime [] ''trimmed_aln.fna''"
    using t by blast
  show ?thesis
    using n by (simp only: a b r simp_thms)
qed

text \<open>
  C9. The empty string as output name is false as a truth value, so it takes the branch
  of the missing name: the output path is the resolved \<open>trimmed_aln.fna\<close> and the
  whole task behaves as it does for \<open>None\<close>.
\<close>

theorem empty_output_name_is_default:
  "\<not> str_truthy (Some [])
   \<and> trimmed_aln_fasta R w (Some []) = PathObj (path_resolve R w ''trimmed_aln.fna'')
   \<and> trimmed_aln_fasta R w (Some []) = trimmed_aln_fasta R w None
   \<and> trimmed_aln_fasta R w (Some []) \<noteq> StrObj []
   \<and> task_cmd R aln_fasta (Some []) gap_threshold trimming_mode w ! 3 =
       path_resolve R w ''trimmed_aln.fna''
   \<and> trim_aln_task0 R aln_fasta (Some []) gap_threshold trimming_mode w =
       trim_aln_task0 R aln_fasta None gap_threshold trimming_mode w"
  by (simp add: trimmed_aln_fasta_def clipkit_cmd_def trim_aln_task0_def)

subsection \<open>The returned handle\<close>

text \<open>
  C5. Whenever the task returns a handle, its local path is the output path as a string
  and its remote destination is \<open>latch:///\<close> followed by that same string.
\<close>

theorem returned_handle_paths:
  assumes "trim_aln_task0 R aln_fasta output_file_name gap_threshold trimming_mode w =
             Inr (h, w')"
  shows "local_path h = output_path R w output_file_name
   \<and> remote_path h = ''latch:///'' @ output_path R w output_file_name
   \<and> remote_path h = ''latch:///'' @ local_path h"
  using assms
  by (auto simp add: trim_aln_task0_def Let_def format_is_str split: sum.splits prod.splits)

theorem returned_handle_paths_witness:
  "trim_aln_task0 sample_runtime sample_file None 0 smart_gap [] =
     Inr (\<lparr>local_path = ''/root/trimmed_aln.fna'',
           remote_path = ''latch:////root/trimmed_aln.fna''\<rparr>,
          [[''clipkit'', ''/tmp/aln.fa'', ''-o'', ''/root/trimmed_aln.fna'', ''-m'',
            ''smart-gap'', ''-g'', ''0.9'']])
   \<and> output_path sample_runtime [] None = ''/root/trimmed_aln.fna''
   \<and> remote_path \<lparr>local_path = ''/root/trimmed_aln.fna'',
                   remote_path = ''latch:////root/trimmed_aln.fna''\<rparr> =
       ''latch:///'' @ output_path sample_runtime [] None"
proof -
  have e: "trim_aln_task0 sample_runtime sample_file None 0 smart_gap [] =
     Inr (\<lparr>local_path = ''/root/trimmed_aln.fna'',
           remote_path = ''latch:////root/trimmed_aln.fna''\<rparr>,
          [[''clipkit'', ''/tmp/aln.fa'', ''-o'', ''/root/trimmed_aln.fna'', ''-m'',
            ''smart-gap'', ''-g'', ''0.9'']])"
    by (simp add: trim_aln_task0_def Let_def trimmed_aln_fasta_def gap_threshold_set_def
        clipkit_cmd_def sample_runtime_def sample_file_def sample_float_repr_def float_0_9_def)
  show ?thesis
    using e returned_handle_paths [OF e] by simp
qed

subsection \<open>The outcome of the external process\<close>

text \<open>
  C6. Whatever completed process \<open>subprocess.run\<close> returns, with any exit status, and
  whatever world the process leaves behind, with or without the output file, the task
  returns the handle for the output path. The handle is built from the task's arguments
  and the world before the run alone.
\<close>

theorem process_outcome_ignored:
  assumes "subprocess_run R
             (task_cmd R aln_fasta output_file_name gap_threshold trimming_mode w) w =
           Inr (cp, w')"
  shows "trim_aln_task0 R aln_fasta output_file_name gap_threshold trimming_mode w =
           Inr (\<lparr>local_path = output_path R w output_file_name,
                 remote_path = ''latch:///'' @ output_path R w output_file_name\<rparr>,
                w')"
  using trim_aln_task0_completed [OF assms] by (simp add: format_is_str)

text \<open>On the sample runtime the process exits with status 1 and the handle comes back.\<close>

theorem process_outcome_ignored_witness:
  "subprocess_run sample_runtime
       (task_cmd sample_runtime sample_file (Some ''out.fa'') 0x3FF0000000000000 gappy []) [] =
     Inr (\<lparr>args = [''clipkit'', ''/tmp/aln.fa'', ''-o'', ''out.fa'', ''-m'', ''gappy'',
                   ''-g'', ''1.0''],
           returncode = 1\<rparr>,
          [[''clipkit'', ''/tmp/aln.fa'', ''-o'', ''out.fa'', ''-m'', ''gappy'', ''-g'', ''1.0'']])
   \<and> trim_aln_task0 sample_runtime sample_file (Some ''out.fa'') 0x3FF0000000000000 gappy [] =
     Inr (\<lparr>local_path = ''out.fa'', remote_path = ''latch:///out.fa''\<rparr>,
          [[''clipkit'', ''/tmp/aln.fa'', ''-o'', ''out.fa'', ''-m'', ''gappy'', ''-g'', ''1.0'']])"
proof -
  have o: "output_path sample_runtime [] (Some ''out.fa'') = ''out.fa''"
    by (simp add: trimmed_aln_fasta_def)
  have r: "subprocess_run sample_runtime
       (task_cmd sample_runtime sample_file (Some ''out.fa'') 0x3FF0000000000000 gappy []) [] =
     Inr (\<lparr>args = [''clipkit'', ''/tmp/aln.fa'', ''-o'', ''out.fa'', ''-m'', ''gappy'',
                   ''-g'', ''1.0''],
           returncode = 1\<rparr>,
          [[''clipkit'', ''/tmp/aln.fa'', ''-o'', ''out.fa'', ''-m'', ''gappy'', ''-g'', ''1.0'']])"
    by (simp add: trimmed_aln_fasta_def gap_threshold_set_def clipkit_cmd_def
        sample_runtime_def sample_file_def sample_float_repr_def)
  show ?thesis
    using r process_outcome_ignored [OF r] by (simp add: o)
qed

text \<open>
  Where no process can be started there is no outcome: the exception of
  \<open>subprocess.run\<close> leaves the task.
\<close>

lemma launch_failure_sample:
  "trim_aln_task0 bare_runtime sample_file None 0 smart_gap [] =
     Inl (OSError ''clipkit'')"
  by (simp add: trim_aln_task0_def Let_def bare_runtime_def sample_runtime_def)

subsection \<open>The workflow\<close>

text \<open>
  C7. The workflow returns what the task returns on the same four arguments, in the same
  world, and a call of the workflow that names all four parameters is a call of the
  task with them.
\<close>

theorem workflow_forwards:
  "clipkit R aln_fasta output_file_name gap_threshold trimming_mode w =
     trim_aln_task0 R aln_fasta output_file_name gap_threshold trimming_mode w
   \<and> clipkit R = trim_aln_task0 R
   \<and> clipkit_call R
        \<lparr>kw_aln_fasta = Some aln_fasta, kw_output_file_name = Some output_file_name,
         kw_gap_threshold = Some gap_threshold, kw_trimming_mode = Some trimming_mode\<rparr> w =
       trim_aln_task0 R aln_fasta output_file_name gap_threshold trimming_mode w"
proof -
  have "clipkit R = trim_aln_task0 R"
    by (intro ext) (simp add: clipkit_def)
  then show ?thesis
    by (simp add: clipkit_call_def)
qed


text \<open>
  On the sample runtime: a call that gives the input file and the mode and leaves the
  other two out runs the tool with the resolved default path and the threshold \<open>0.9\<close>,
  and a call without the input file runs nothing.
\<close>

lemma workflow_call_sample:
  "clipkit_call sample_runtime
      \<lparr>kw_aln_fasta = Some sample_file, kw_output_file_name = None, kw_gap_threshold = None,
       kw_trimming_mode = Some kpi\<rparr> [] =
     Inr (\<lparr>local_path = ''/root/trimmed_aln.fna'',
           remote_path = ''latch:////root/trimmed_aln.fna''\<rparr>,
          [[''clipkit'', ''/tmp/aln.fa'', ''-o'', ''/root/trimmed_aln.fna'', ''-m'', ''kpi'',
            ''-g'', ''0.9'']])
   \<and> clipkit_call sample_runtime
        \<lparr>kw_aln_fasta = None, kw_output_file_name = Some (Some ''out.fa''),
         kw_gap_threshold = Some 0x3FE0000000000000, kw_trimming_mode = Some kpi\<rparr> [] =
       Inl (TypeError [''aln_fasta''])"
  by (simp add: clipkit_call_def clipkit_def trim_aln_task0_def Let_def trimmed_aln_fasta_def
      gap_threshold_set_def clipkit_cmd_def sample_runtime_def sample_file_def
      sample_float_repr_def float_0_9_def)

end
